theory Spec2Isabelle
  imports Complex_Main "HOL-Library.Sublist"
begin

section \<open>Review progress (spaced repetition)\<close>

text \<open>
  The progress store of \<^verbatim>\<open>script.js\<close> is the JSON object kept under the key
  \<^verbatim>\<open>vocabProgress\<close>: one entry per vocabulary id, each entry an object
  \<^verbatim>\<open>{ correct, incorrect, lastReview, nextReview, ease }\<close>.

  \<^item> Vocabulary ids are the positive integers of \<^verbatim>\<open>vocabularyData\<close>.
  \<^item> \<^verbatim>\<open>Date.now()\<close> is the number of milliseconds elapsed since the epoch, a natural
    number; every reading of the clock is an explicit argument of the model. A stored
    time stamp is an integer, because \<^verbatim>\<open>nextReview\<close> is computed from the ease.
  \<^item> \<^verbatim>\<open>lastReview\<close> is \<^verbatim>\<open>null\<close> until the first review: \<open>None\<close>.
  \<^item> \<^verbatim>\<open>ease\<close> is a JavaScript number. The model computes with exact real numbers
    and reads the literals \<^verbatim>\<open>0.1\<close>, \<^verbatim>\<open>0.2\<close>, \<^verbatim>\<open>1.3\<close>, \<^verbatim>\<open>2.5\<close> as decimal fractions;
    the rounding of binary floating point is not modelled.
\<close>

type_synonym vocabId = nat

record vocab_progress =
  correct :: nat
  incorrect :: nat
  lastReview :: "int option"
  nextReview :: int
  ease :: real

type_synonym progress_store = "vocabId \<rightharpoonup> vocab_progress"

text \<open>
  The object literal
  \<^verbatim>\<open>{ correct: 0, incorrect: 0, lastReview: null, nextReview: Date.now(), ease: 2.5 }\<close>
  of \<^verbatim>\<open>updateProgress\<close> and \<^verbatim>\<open>getVocabProgress\<close>, at the clock reading \<open>t\<close>.
\<close>

definition newProgress :: "nat \<Rightarrow> vocab_progress" where
  "newProgress t =
     \<lparr>correct = 0, incorrect = 0, lastReview = None, nextReview = int t, ease = 2.5\<rparr>"

text \<open>
  The body of \<^verbatim>\<open>updateProgress\<close> once the entry \<^verbatim>\<open>progress[vocabId]\<close> exists:
  \<^verbatim>\<open>
    if (isCorrect) { p.correct++;   p.ease = Math.min(2.5, p.ease + 0.1); }
    else           { p.incorrect++; p.ease = Math.max(1.3, p.ease - 0.2); }
    p.lastReview = Date.now();
    const daysUntilNext = Math.ceil(p.ease);
    p.nextReview = Date.now() + (daysUntilNext * 24 * 60 * 60 * 1000);
  \<close>
  \<open>tReview\<close> and \<open>tNext\<close> are the two readings of the clock, in this order.
\<close>

definition updateProgress_entry ::
  "bool \<Rightarrow> nat \<Rightarrow> nat \<Rightarrow> vocab_progress \<Rightarrow> vocab_progress" where
  "updateProgress_entry isCorrect tReview tNext p =
     (let p1 = (if isCorrect
                then p\<lparr>correct := correct p + 1, ease := min 2.5 (ease p + 0.1)\<rparr>
                else p\<lparr>incorrect := incorrect p + 1, ease := max 1.3 (ease p - 0.2)\<rparr>);
          p2 = p1\<lparr>lastReview := Some (int tReview)\<rparr>;
          daysUntilNext = \<lceil>ease p2\<rceil>
      in p2\<lparr>nextReview := int tNext + daysUntilNext * 24 * 60 * 60 * 1000\<rparr>)"

text \<open>
  \<^verbatim>\<open>updateProgress(vocabId, isCorrect)\<close>: the store read by \<^verbatim>\<open>getProgress()\<close> is an
  argument, the store written by \<^verbatim>\<open>saveProgress\<close> is the first component of the result
  and the returned entry the second. \<open>tNew\<close> is the clock reading of the literal that
  creates a missing entry.
\<close>

definition updateProgress ::
  "progress_store \<Rightarrow> nat \<Rightarrow> nat \<Rightarrow> nat \<Rightarrow> vocabId \<Rightarrow> bool \<Rightarrow> progress_store \<times> vocab_progress"
  where
  "updateProgress progress tNew tReview tNext vocabId isCorrect =
     (let p0 = (case progress vocabId of None \<Rightarrow> newProgress tNew | Some p \<Rightarrow> p);
          p' = updateProgress_entry isCorrect tReview tNext p0
      in (progress(vocabId \<mapsto> p'), p'))"

text \<open>
  A run of answers on one entry, every answer with its time stamp (both clock readings
  of one call coincide).
\<close>

fun updateProgress_run :: "(bool \<times> nat) list \<Rightarrow> vocab_progress \<Rightarrow> vocab_progress" where
  "updateProgress_run [] p = p"
| "updateProgress_run ((isCorrect, now) # rest) p =
     updateProgress_run rest (updateProgress_entry isCorrect now now p)"

text \<open>
  \<^verbatim>\<open>getWordsForReview()\<close>: the word bank (a JSON array of ids) and the progress store
  come from local storage, \<open>now\<close> is the clock reading.
  \<^verbatim>\<open>
    return wordBank.filter(id => {
        const vocabProgress = progress[id] || { nextReview: 0 };
        return vocabProgress.nextReview <= now;
    });
  \<close>
\<close>

definition getWordsForReview :: "vocabId list \<Rightarrow> progress_store \<Rightarrow> nat \<Rightarrow> vocabId list" where
  "getWordsForReview wordBank progress now =
     filter (\<lambda>id. (case progress id of None \<Rightarrow> 0 | Some vocabProgress \<Rightarrow> nextReview vocabProgress)
                   \<le> int now) wordBank"

section \<open>Strings and object literals of JavaScript\<close>

text \<open>
  A JavaScript string is a sequence of UTF-16 code units. The model is a list of
  \<^typ>\<open>char\<close>, read as the code units \<open>0\<close> to \<open>255\<close> (ASCII and Latin-1); code units
  above \<open>255\<close> are outside the model.

  \<^verbatim>\<open>String.prototype.toLowerCase\<close> maps, in this range, the letters \<^verbatim>\<open>A\<close> to \<^verbatim>\<open>Z\<close>
  (65 to 90) and the Latin-1 capitals (192 to 222 but the multiplication sign 215) to
  the code unit 32 above, and nothing else.
\<close>

definition toLowerCase_char :: "char \<Rightarrow> char" where
  "toLowerCase_char c =
     (let n = (of_char c :: nat)
      in if (65 \<le> n \<and> n \<le> 90) \<or> (192 \<le> n \<and> n \<le> 222 \<and> n \<noteq> 215)
         then char_of (n + 32) else c)"

definition toLowerCase :: "string \<Rightarrow> string" where
  "toLowerCase s = map toLowerCase_char s"

text \<open>\<^verbatim>\<open>s.startsWith(v)\<close>, \<^verbatim>\<open>s.endsWith(v)\<close> and \<^verbatim>\<open>s.includes(v)\<close>.\<close>

fun startsWith :: "string \<Rightarrow> string \<Rightarrow> bool" where
  "startsWith s [] = True"
| "startsWith [] (c # v) = False"
| "startsWith (x # s) (c # v) = (x = c \<and> startsWith s v)"

definition endsWith :: "string \<Rightarrow> string \<Rightarrow> bool" where
  "endsWith s v = startsWith (rev s) (rev v)"

fun includesStr :: "string \<Rightarrow> string \<Rightarrow> bool" where
  "includesStr [] v = startsWith [] v"
| "includesStr (x # s) v = (startsWith (x # s) v \<or> includesStr s v)"

text \<open>\<^verbatim>\<open>s.slice(0, -1)\<close> and \<^verbatim>\<open>s.slice(-1)\<close>: all but the last code unit, and the last one.\<close>

definition slice_init :: "string \<Rightarrow> string" where
  "slice_init s = take (length s - 1) s"

definition slice_last :: "string \<Rightarrow> string" where
  "slice_last s = drop (length s - 1) s"

text \<open>
  The character class \<^verbatim>\<open>[aeiou]\<close>, and the two regular expressions of \<^verbatim>\<open>getVerbForms\<close>.
  Neither has a flag, so \<^verbatim>\<open>$\<close> is the end of the string and \<^verbatim>\<open>[^aeiou]\<close> is any code
  unit that is not one of the five letters: \<^verbatim>\<open>s.match(re)\<close> is not \<^verbatim>\<open>null\<close> exactly when
  the last two code units of \<open>s\<close> are in the two classes.
\<close>

definition isVowel :: "char \<Rightarrow> bool" where
  "isVowel c = (c = CHR ''a'' \<or> c = CHR ''e'' \<or> c = CHR ''i'' \<or> c = CHR ''o'' \<or> c = CHR ''u'')"

definition match_nonvowel_y :: "string \<Rightarrow> bool" where
  \<comment> \<open>\<^verbatim>\<open>/[^aeiou]y$/\<close>\<close>
  "match_nonvowel_y s =
     (case rev s of c2 # c1 # _ \<Rightarrow> \<not> isVowel c1 \<and> c2 = CHR ''y'' | _ \<Rightarrow> False)"

definition match_vowel_nonvowel :: "string \<Rightarrow> bool" where
  \<comment> \<open>\<^verbatim>\<open>/[aeiou][^aeiou]$/\<close>\<close>
  "match_vowel_nonvowel s =
     (case rev s of c2 # c1 # _ \<Rightarrow> isVowel c1 \<and> \<not> isVowel c2 | _ \<Rightarrow> False)"

text \<open>
  An object literal is the list of its \<^verbatim>\<open>key: value\<close> pairs in the order written. A key
  written twice keeps the value written last. \<^verbatim>\<open>Object.keys\<close> lists every key once, in
  the order of its first occurrence.

  \<^verbatim>\<open>table[key]\<close> follows the prototype chain: a key that the literal does not have,
  but that names a property of \<^verbatim>\<open>Object.prototype\<close>, yields that property (a function,
  or the prototype object itself for \<^verbatim>\<open>__proto__\<close>), not \<^verbatim>\<open>undefined\<close>.
\<close>

definition own_property :: "(string \<times> 'a) list \<Rightarrow> string \<Rightarrow> 'a option" where
  "own_property table key = map_of (rev table) key"

fun object_keys :: "(string \<times> 'a) list \<Rightarrow> string list" where
  "object_keys [] = []"
| "object_keys ((k, v) # kvs) = k # filter (\<lambda>k'. k' \<noteq> k) (object_keys kvs)"

definition object_prototype_properties :: "string list" where
  "object_prototype_properties =
     [''constructor'', ''__defineGetter__'', ''__defineSetter__'', ''hasOwnProperty'',
      ''__lookupGetter__'', ''__lookupSetter__'', ''isPrototypeOf'', ''propertyIsEnumerable'',
      ''toString'', ''valueOf'', ''__proto__'', ''toLocaleString'']"

datatype 'a property = Own 'a | Inherited | Undefined

definition get_property :: "(string \<times> 'a) list \<Rightarrow> string \<Rightarrow> 'a property" where
  "get_property table key =
     (case own_property table key of
        Some v \<Rightarrow> Own v
      | None \<Rightarrow> if key \<in> set object_prototype_properties then Inherited else Undefined)"

section \<open>Verb forms\<close>

text \<open>The table \<^verbatim>\<open>irregularVerbs\<close>: base form, \<^verbatim>\<open>v2\<close> and \<^verbatim>\<open>v3\<close>.\<close>

definition irregularVerbs :: "(string \<times> string \<times> string) list" where
  "irregularVerbs =
    [
     (''go'', ''went'', ''gone''), (''eat'', ''ate'', ''eaten''), (''see'', ''saw'', ''seen''),
     (''take'', ''took'', ''taken''), (''come'', ''came'', ''come''), (''get'', ''got'', ''gotten''),
     (''make'', ''made'', ''made''), (''know'', ''knew'', ''known''), (''think'', ''thought'', ''thought''),
     (''give'', ''gave'', ''given''), (''find'', ''found'', ''found''), (''tell'', ''told'', ''told''),
     (''buy'', ''bought'', ''bought''), (''sell'', ''sold'', ''sold''), (''meet'', ''met'', ''met''),
     (''write'', ''wrote'', ''written''), (''read'', ''read'', ''read''), (''speak'', ''spoke'', ''spoken''),
     (''feel'', ''felt'', ''felt''), (''run'', ''ran'', ''run''), (''swim'', ''swam'', ''swum''),
     (''win'', ''won'', ''won''), (''sleep'', ''slept'', ''slept''), (''drink'', ''drank'', ''drunk''),
     (''hang'', ''hung'', ''hung'')
    ]"

text \<open>
  The result of \<^verbatim>\<open>getVerbForms\<close>. The field \<^verbatim>\<open>type\<close> is \<^verbatim>\<open>'irregular'\<close> or \<^verbatim>\<open>'common'\<close>
  (the regular verbs). \<^verbatim>\<open>v2\<close> and \<^verbatim>\<open>v3\<close> are strings or \<^verbatim>\<open>undefined\<close> (\<open>None\<close>).
\<close>

datatype verb_type = Irregular | Common

record verb_forms =
  v1 :: string
  v2 :: "string option"
  v3 :: "string option"
  vtype :: verb_type

text \<open>
  \<^verbatim>\<open>getVerbForms(verb)\<close>. The test \<^verbatim>\<open>if (irregularVerbs[lowerVerb])\<close> succeeds on every
  value that is not falsy: on an entry of the table, and on an inherited property, which
  is a function or an object and has no field \<^verbatim>\<open>v2\<close> or \<^verbatim>\<open>v3\<close>.
\<close>

definition getVerbForms :: "string \<Rightarrow> verb_forms" where
  "getVerbForms verb =
     (let lowerVerb = toLowerCase verb
      in case get_property irregularVerbs lowerVerb of
           Own (past, participle) \<Rightarrow>
             \<lparr>v1 = lowerVerb, v2 = Some past, v3 = Some participle, vtype = Irregular\<rparr>
         | Inherited \<Rightarrow>
             \<lparr>v1 = lowerVerb, v2 = None, v3 = None, vtype = Irregular\<rparr>
         | Undefined \<Rightarrow>
             (let past =
                (if endsWith lowerVerb ''e'' then lowerVerb @ ''d''
                 else if match_nonvowel_y lowerVerb then slice_init lowerVerb @ ''ied''
                 else if match_vowel_nonvowel lowerVerb
                   then lowerVerb @ slice_last lowerVerb @ ''ed''
                 else lowerVerb @ ''ed'')
              in \<lparr>v1 = lowerVerb, v2 = Some past, v3 = Some past, vtype = Common\<rparr>))"

text \<open>
  The past form as the specification words its rules, for comparison with
  \<^const>\<open>getVerbForms\<close>: rule 3 applies to a base that ends in consonant, vowel,
  consonant (a single vowel between two letters that are not vowels).
\<close>

definition ends_in_CVC :: "string \<Rightarrow> bool" where
  "ends_in_CVC s =
     (case rev s of c3 # c2 # c1 # _ \<Rightarrow> \<not> isVowel c1 \<and> isVowel c2 \<and> \<not> isVowel c3
      | _ \<Rightarrow> False)"

definition past_by_stated_rules :: "string \<Rightarrow> string" where
  "past_by_stated_rules base =
     (if endsWith base ''e'' then base @ ''d''
      else if match_nonvowel_y base then slice_init base @ ''ied''
      else if ends_in_CVC base then base @ slice_last base @ ''ed''
      else base @ ''ed'')"

section \<open>Levels\<close>

datatype level = Beginner | Intermediate | Advanced

text \<open>The object literal \<^verbatim>\<open>wordFrequency\<close>, as written (three keys occur twice).\<close>

definition wordFrequency :: "(string \<times> int) list" where
  "wordFrequency =
    [
     (''go'', 100), (''get'', 99), (''make'', 98), (''know'', 97), (''think'', 96),
     (''take'', 95), (''see'', 94), (''come'', 93), (''want'', 92), (''use'', 91),
     (''find'', 90), (''give'', 89), (''tell'', 88), (''work'', 87), (''call'', 86),
     (''try'', 85), (''ask'', 84), (''need'', 83), (''feel'', 82), (''become'', 81),
     (''leave'', 80), (''put'', 79), (''mean'', 78), (''keep'', 77), (''let'', 76),
     (''begin'', 75), (''seem'', 74), (''help'', 73), (''show'', 72), (''hear'', 71),
     (''play'', 70), (''run'', 69), (''move'', 68), (''like'', 67), (''live'', 66),
     (''believe'', 65), (''bring'', 64), (''happen'', 63), (''write'', 62), (''sit'', 61),
     (''stand'', 60), (''lose'', 59), (''pay'', 58), (''meet'', 57), (''include'', 56),
     (''continue'', 55), (''set'', 54), (''learn'', 53), (''change'', 52), (''lead'', 51),
     (''understand'', 50), (''watch'', 49), (''follow'', 48), (''stop'', 47), (''create'', 46),
     (''speak'', 45), (''read'', 44), (''spend'', 43), (''grow'', 42), (''open'', 41),
     (''walk'', 40), (''win'', 39), (''offer'', 38), (''remember'', 37), (''love'', 36),
     (''consider'', 35), (''appear'', 34), (''buy'', 33), (''wait'', 32), (''serve'', 31),
     (''die'', 30), (''send'', 29), (''build'', 28), (''stay'', 27), (''fall'', 26),
     (''cut'', 25), (''reach'', 24), (''kill'', 23), (''raise'', 22), (''pass'', 21),
     (''sell'', 20), (''decide'', 19), (''return'', 18), (''explain'', 17), (''develop'', 16),
     (''carry'', 15), (''break'', 14), (''receive'', 13), (''agree'', 12), (''support'', 11),
     (''hit'', 10), (''produce'', 9), (''eat'', 8), (''cover'', 7), (''catch'', 6),
     (''draw'', 5), (''choose'', 4), (''clean'', 3), (''wash'', 2), (''cook'', 1),
     (''manage'', 50), (''invest'', 49), (''negotiate'', 48), (''analyze'', 47), (''research'', 46),
     (''design'', 45), (''implement'', 44), (''evaluate'', 43), (''improve'', 42), (''optimize'', 41),
     (''organize'', 40), (''coordinate'', 39), (''supervise'', 38), (''train'', 37), (''guide'', 36),
     (''direct'', 35), (''execute'', 34), (''operate'', 33), (''maintain'', 32), (''establish'', 31),
     (''achieve'', 30), (''accomplish'', 29), (''complete'', 28), (''perform'', 27), (''conduct'', 26),
     (''manage'', 25), (''handle'', 24), (''process'', 23), (''review'', 22), (''assess'', 21),
     (''examine'', 20), (''investigate'', 19), (''explore'', 18), (''discover'', 17), (''identify'', 16),
     (''define'', 15), (''describe'', 14), (''discuss'', 13), (''argue'', 12), (''debate'', 11),
     (''critique'', 10), (''compare'', 9), (''contrast'', 8), (''synthesize'', 7), (''summarize'', 6),
     (''paraphrase'', 5), (''cite'', 4), (''reference'', 3), (''synthesize'', 25), (''elucidate'', 24),
     (''institutionalize'', 23), (''systematize'', 22), (''methodize'', 21), (''standardize'', 20), (''commercialize'', 19),
     (''monetize'', 18), (''capitalize'', 17), (''leverage'', 16), (''differentiate'', 15), (''distinguish'', 14),
     (''comprehend'', 13), (''apprehend'', 12), (''conceptualize'', 11), (''philosophize'', 10), (''theorize'', 9),
     (''hypothesize'', 8), (''methodologize'', 7), (''operationalize'', 6), (''conceptualize'', 5), (''rationalize'', 4),
     (''categorize'', 3), (''prioritize'', 2)
    ]"

text \<open>
  \<^verbatim>\<open>levelMapping\<close>: the keys of \<^verbatim>\<open>wordFrequency\<close> filtered by their frequency.
\<close>

definition frequency_where :: "(int \<Rightarrow> bool) \<Rightarrow> string list" where
  "frequency_where P =
     filter (\<lambda>w. case own_property wordFrequency w of Some f \<Rightarrow> P f | None \<Rightarrow> False)
       (object_keys wordFrequency)"

definition levelMapping_beginner :: "string list" where
  "levelMapping_beginner = frequency_where (\<lambda>f. f \<ge> 50)"

definition levelMapping_intermediate :: "string list" where
  "levelMapping_intermediate = frequency_where (\<lambda>f. f \<ge> 20 \<and> f < 50)"

definition levelMapping_advanced :: "string list" where
  "levelMapping_advanced = frequency_where (\<lambda>f. f < 20)"

definition complexPrefixes :: "string list" where
  "complexPrefixes =
     [''institutional'', ''systemat'', ''methodolog'', ''operational'', ''conceptual'',
      ''philosoph'', ''theor'', ''hypothes'']"

definition complexSuffixes :: "string list" where
  "complexSuffixes = [''ize'', ''ify'', ''ate'']"

text \<open>The tests of \<^verbatim>\<open>determineLevel\<close> on the lower-cased verb, one per \<^verbatim>\<open>if\<close>.\<close>

definition matches_beginner :: "string \<Rightarrow> bool" where
  "matches_beginner verbLower =
     list_ex (\<lambda>v. verbLower = v \<or> startsWith verbLower v \<or> endsWith verbLower v)
       levelMapping_beginner"

definition matches_intermediate :: "string \<Rightarrow> bool" where
  "matches_intermediate verbLower =
     list_ex (\<lambda>v. verbLower = v \<or> includesStr verbLower v) levelMapping_intermediate"

definition matches_advanced :: "string \<Rightarrow> bool" where
  "matches_advanced verbLower =
     list_ex (\<lambda>v. verbLower = v \<or> includesStr verbLower v) levelMapping_advanced"

definition matches_complex :: "string \<Rightarrow> bool" where
  "matches_complex verbLower =
     (list_ex (\<lambda>p. startsWith verbLower p) complexPrefixes
      \<or> (length verbLower > 12 \<and> list_ex (\<lambda>s. endsWith verbLower s) complexSuffixes))"

text \<open>
  \<^verbatim>\<open>determineLevel(verb)\<close>. The test \<^verbatim>\<open>wordFrequency[verbLower] !== undefined\<close> also
  succeeds on an inherited property; that value is not a number, both comparisons
  \<^verbatim>\<open>freq >= 50\<close> and \<^verbatim>\<open>freq >= 20\<close> are false, and the result is \<^verbatim>\<open>'advanced'\<close>.
  The last two tests read the length of \<^verbatim>\<open>verb\<close>, not of \<^verbatim>\<open>verbLower\<close>.
\<close>

definition determineLevel :: "string \<Rightarrow> level" where
  "determineLevel verb =
     (let verbLower = toLowerCase verb
      in case get_property wordFrequency verbLower of
           Own freq \<Rightarrow>
             if freq \<ge> 50 then Beginner else if freq \<ge> 20 then Intermediate else Advanced
         | Inherited \<Rightarrow> Advanced
         | Undefined \<Rightarrow>
             if matches_beginner verbLower then Beginner
             else if matches_intermediate verbLower then Intermediate
             else if matches_advanced verbLower then Advanced
             else if matches_complex verbLower then Advanced
             else if length verb \<le> 4 then Beginner
             else if length verb \<le> 8 then Intermediate
             else Advanced)"

section \<open>Properties of the review progress\<close>

lemma ease_updateProgress_entry:
  "ease (updateProgress_entry isCorrect tReview tNext p) =
     (if isCorrect then min 2.5 (ease p + 0.1) else max 1.3 (ease p - 0.2))"
  by (simp add: updateProgress_entry_def Let_def)



lemma ease_step_range:
  fixes e :: real
  assumes "1.3 \<le> e" and "e \<le> 2.5"
  shows "1.3 \<le> min 2.5 (e + 0.1)" and "min 2.5 (e + 0.1) \<le> 2.5"
    and "1.3 \<le> max 1.3 (e - 0.2)" and "max 1.3 (e - 0.2) \<le> 2.5"
  using assms by linarith+

lemma ease_in_range_step:
  assumes "1.3 \<le> ease p" and "ease p \<le> 2.5"
  shows "1.3 \<le> ease (updateProgress_entry isCorrect tReview tNext p)"
    and "ease (updateProgress_entry isCorrect tReview tNext p) \<le> 2.5"
proof -
  note r = ease_step_range [OF assms]
  show "1.3 \<le> ease (updateProgress_entry isCorrect tReview tNext p)"
    by (cases isCorrect) (simp_all only: ease_updateProgress_entry if_True if_False r)
  show "ease (updateProgress_entry isCorrect tReview tNext p) \<le> 2.5"
    by (cases isCorrect) (simp_all only: ease_updateProgress_entry if_True if_False r)
qed



text \<open>
  The store: the returned entry is the stored one, it is the update of the entry that
  was there (or of a new one), and no other entry changes.
\<close>

lemma updateProgress_result:
  "updateProgress progress tNew tReview tNext vocabId isCorrect = (progress', p') \<Longrightarrow>
     progress' vocabId = Some p'
     \<and> p' = updateProgress_entry isCorrect tReview tNext
              (case progress vocabId of None \<Rightarrow> newProgress tNew | Some p \<Rightarrow> p)
     \<and> (\<forall>other. other \<noteq> vocabId \<longrightarrow> progress' other = progress other)"
  by (auto simp: updateProgress_def Let_def)



text \<open>
  C6. From any review state with an ease in \<open>[1.3, 2.5]\<close>, every run of answers (all
  correct, all incorrect or mixed) ends in a state with an ease in \<open>[1.3, 2.5]\<close>: correct
  answers never raise the ease above 2.5 and incorrect ones never lower it below 1.3.
  A single call is the run of length one.
\<close>

theorem updateProgress_run_ease_range:
  assumes "1.3 \<le> ease p" and "ease p \<le> 2.5"
  shows "1.3 \<le> ease (updateProgress_run answers p) \<and> ease (updateProgress_run answers p) \<le> 2.5"
  using assms
proof (induction answers arbitrary: p)
  case Nil
  then show ?case by simp
next
  case (Cons a answers)
  obtain isCorrect now where a: "a = (isCorrect, now)" by (cases a)
  from Cons.prems have "1.3 \<le> ease (updateProgress_entry isCorrect now now p)"
    and "ease (updateProgress_entry isCorrect now now p) \<le> 2.5"
    by (rule ease_in_range_step)+
  then show ?case unfolding a updateProgress_run.simps by (rule Cons.IH)
qed

theorem updateProgress_run_ease_range_witness:
  "1.3 \<le> ease (updateProgress_run [(True, 10), (True, 20), (False, 30), (False, 40), (False, 50)]
                 (newProgress 0))
   \<and> ease (updateProgress_run [(True, 10), (True, 20), (False, 30), (False, 40), (False, 50)]
            (newProgress 0)) \<le> 2.5"
proof -
  have "1.3 \<le> ease (newProgress 0)" and "ease (newProgress 0) \<le> 2.5"
    by (simp_all add: newProgress_def)
  then show ?thesis by (rule updateProgress_run_ease_range)
qed

text \<open>
  C7, as the code has it. Each answer clamps one bound only. A correct answer brings a
  stored ease above 2.5 back to 2.5 and never leaves the ease above 2.5; an incorrect
  answer brings a stored ease below 1.3 up to 1.3 and never leaves the ease below 1.3.
  The other bound is not enforced: after a correct answer an ease below 1.2 is still
  below 1.3, and after an incorrect answer an ease above 2.7 is still above 2.5.
\<close>

theorem updateProgress_entry_clamps_one_bound:
  "ease (updateProgress_entry True now now p) \<le> 2.5
   \<and> 1.3 \<le> ease (updateProgress_entry False now now p)
   \<and> (2.5 < ease p \<longrightarrow> ease (updateProgress_entry True now now p) = 2.5)
   \<and> (ease p < 1.3 \<longrightarrow> ease (updateProgress_entry False now now p) = 1.3)
   \<and> (ease p < 1.2 \<longrightarrow> ease (updateProgress_entry True now now p) < 1.3)
   \<and> (2.7 < ease p \<longrightarrow> 2.5 < ease (updateProgress_entry False now now p))"
proof -
  have "min 2.5 (ease p + 0.1) \<le> 2.5" and "1.3 \<le> max 1.3 (ease p - 0.2)"
    by linarith+
  moreover have "2.5 < ease p \<longrightarrow> min 2.5 (ease p + 0.1) = 2.5"
    and "ease p < 1.3 \<longrightarrow> max 1.3 (ease p - 0.2) = 1.3"
    by linarith+
  moreover have "ease p < 1.2 \<longrightarrow> min 2.5 (ease p + 0.1) < 1.3"
    and "2.7 < ease p \<longrightarrow> 2.5 < max 1.3 (ease p - 0.2)"
    by linarith+
  ultimately show ?thesis
    by (simp only: ease_updateProgress_entry if_True if_False simp_thms)
qed

theorem updateProgress_entry_clamps_one_bound_witness:
  "ease (updateProgress_entry True 1000 1000
           \<lparr>correct = 4, incorrect = 1, lastReview = None, nextReview = 0, ease = 3\<rparr>) = 2.5
   \<and> ease (updateProgress_entry False 1000 1000
           \<lparr>correct = 4, incorrect = 1, lastReview = None, nextReview = 0, ease = 1\<rparr>) = 1.3"
  using
    updateProgress_entry_clamps_one_bound [of 1000
      "\<lparr>correct = 4, incorrect = 1, lastReview = None, nextReview = 0, ease = 3\<rparr>"]
    updateProgress_entry_clamps_one_bound [of 1000
      "\<lparr>correct = 4, incorrect = 1, lastReview = None, nextReview = 0, ease = 1\<rparr>"]
  by simp

text \<open>
  C7 as stated fails: a stored ease of 0.5 is 0.6 after a correct answer, and a stored
  ease of 5 is 4.8 after an incorrect answer; both are still outside \<open>[1.3, 2.5]\<close>.
\<close>

theorem updateProgress_entry_recovery_counterexample:
  "ease (updateProgress_entry True 1000 1000
           \<lparr>correct = 0, incorrect = 0, lastReview = None, nextReview = 0, ease = 0.5\<rparr>) = 0.6
   \<and> \<not> (1.3 \<le> ease (updateProgress_entry True 1000 1000
           \<lparr>correct = 0, incorrect = 0, lastReview = None, nextReview = 0, ease = 0.5\<rparr>))
   \<and> ease (updateProgress_entry False 1000 1000
           \<lparr>correct = 0, incorrect = 0, lastReview = None, nextReview = 0, ease = 5\<rparr>) = 4.8
   \<and> \<not> (ease (updateProgress_entry False 1000 1000
           \<lparr>correct = 0, incorrect = 0, lastReview = None, nextReview = 0, ease = 5\<rparr>) \<le> 2.5)"
  by (simp add: ease_updateProgress_entry)



text \<open>
  C10. For every word bank, progress store and time stamp, the words for review are
  items of the word bank: an item that is not in the word bank is never returned, even
  when its stored state is due.
\<close>

theorem getWordsForReview_subset_wordBank:
  "set (getWordsForReview wordBank progress now) \<subseteq> set wordBank
   \<and> (item \<notin> set wordBank \<longrightarrow> item \<notin> set (getWordsForReview wordBank progress now))"
  by (auto simp: getWordsForReview_def)

theorem getWordsForReview_subset_wordBank_witness:
  "7 \<notin> set (getWordsForReview [1, 2]
     [7 \<mapsto> \<lparr>correct = 0, incorrect = 2, lastReview = Some 5, nextReview = 10, ease = 2.1\<rparr>] 1000)
   \<and> set (getWordsForReview [1, 2]
     [7 \<mapsto> \<lparr>correct = 0, incorrect = 2, lastReview = Some 5, nextReview = 10, ease = 2.1\<rparr>] 1000)
     \<subseteq> {1, 2}"
  using
    getWordsForReview_subset_wordBank [of "[1, 2]"
      "[7 \<mapsto> \<lparr>correct = 0, incorrect = 2, lastReview = Some 5, nextReview = 10, ease = 2.1\<rparr>]"
      1000 7]
  by simp

section \<open>Properties of the strings and tables\<close>

text \<open>The string functions are the prefix, suffix and contiguous-sublist relations.\<close>

lemma startsWith_prefix: "startsWith s v \<longleftrightarrow> prefix v s"
  by (induction s v rule: startsWith.induct) auto

lemma endsWith_suffix: "endsWith s v \<longleftrightarrow> suffix v s"
  by (simp add: endsWith_def startsWith_prefix suffix_to_prefix)

lemma includesStr_sublist: "includesStr s v \<longleftrightarrow> sublist v s"
  by (induction s) (auto simp: startsWith_prefix sublist_Cons_right)

lemma endsWith_snoc: "endsWith s [c] \<longleftrightarrow> (\<exists>xs. s = xs @ [c])"
  by (auto simp: endsWith_suffix suffix_def)

lemma rev_two_snoc: "rev s = c2 # c1 # r \<Longrightarrow> s = rev r @ [c1, c2]"
  by (metis rev_rev_ident rev.simps(2) append.assoc append_Cons append_Nil)

lemma match_nonvowel_y_iff:
  "match_nonvowel_y s \<longleftrightarrow> (\<exists>xs c. s = xs @ [c, CHR ''y''] \<and> \<not> isVowel c)"
proof
  assume "match_nonvowel_y s"
  then obtain c1 r where r: "rev s = CHR ''y'' # c1 # r" and c1: "\<not> isVowel c1"
    by (auto simp: match_nonvowel_y_def split: list.splits)
  from r have "s = rev r @ [c1, CHR ''y'']" by (rule rev_two_snoc)
  with c1 show "\<exists>xs c. s = xs @ [c, CHR ''y''] \<and> \<not> isVowel c" by blast
next
  assume "\<exists>xs c. s = xs @ [c, CHR ''y''] \<and> \<not> isVowel c"
  then show "match_nonvowel_y s" by (auto simp: match_nonvowel_y_def)
qed

lemma match_vowel_nonvowel_iff:
  "match_vowel_nonvowel s \<longleftrightarrow> (\<exists>xs v c. s = xs @ [v, c] \<and> isVowel v \<and> \<not> isVowel c)"
proof
  assume "match_vowel_nonvowel s"
  then obtain c2 c1 r where r: "rev s = c2 # c1 # r" and c: "isVowel c1" "\<not> isVowel c2"
    by (auto simp: match_vowel_nonvowel_def split: list.splits)
  from r have "s = rev r @ [c1, c2]" by (rule rev_two_snoc)
  with c show "\<exists>xs v c. s = xs @ [v, c] \<and> isVowel v \<and> \<not> isVowel c" by blast
next
  assume "\<exists>xs v c. s = xs @ [v, c] \<and> isVowel v \<and> \<not> isVowel c"
  then show "match_vowel_nonvowel s" by (auto simp: match_vowel_nonvowel_def)
qed

lemma slice_init_snoc: "slice_init (xs @ [c]) = xs"
  by (simp add: slice_init_def)

lemma slice_last_snoc: "slice_last (xs @ [c]) = [c]"
  by (simp add: slice_last_def)

lemma length_toLowerCase: "length (toLowerCase s) = length s"
  by (simp add: toLowerCase_def)

lemma toLowerCase_char_idem: "toLowerCase_char (toLowerCase_char c) = toLowerCase_char c"
proof -
  have "of_char c < (256::nat)" by simp
  then show ?thesis
    by (auto simp: toLowerCase_char_def Let_def)
qed

lemma toLowerCase_idem: "toLowerCase (toLowerCase s) = toLowerCase s"
  by (simp add: toLowerCase_def toLowerCase_char_idem)

lemma own_property_None_iff: "own_property table key = None \<longleftrightarrow> key \<notin> set (map fst table)"
  by (simp add: own_property_def map_of_eq_None_iff)

lemma own_property_distinct:
  assumes "distinct (map fst table)" and "(key, v) \<in> set table"
  shows "own_property table key = Some v"
  using assms by (simp add: own_property_def rev_map [symmetric])

lemma object_keys_subset: "set (object_keys table) \<subseteq> set (map fst table)"
  by (induction table rule: object_keys.induct) auto

lemma frequency_where_subset: "set (frequency_where P) \<subseteq> set (map fst wordFrequency)"
  using object_keys_subset [of wordFrequency] by (auto simp: frequency_where_def)

text \<open>
  Of the properties every object inherits, only two have a name without a capital
  letter, so only these two can be the lower-cased form of a string.
\<close>

lemma lower_case_prototype_properties:
  "\<forall>k \<in> set object_prototype_properties.
     toLowerCase k = k \<longrightarrow> k = ''constructor'' \<or> k = ''__proto__''"
  by (simp add: object_prototype_properties_def toLowerCase_def toLowerCase_char_def
      char_of_def bit_iff_odd)

lemma inherited_toLowerCase:
  assumes "toLowerCase s \<in> set object_prototype_properties"
  shows "toLowerCase s = ''constructor'' \<or> toLowerCase s = ''__proto__''"
  using assms lower_case_prototype_properties toLowerCase_idem [of s] by blast

lemma irregularVerbs_distinct: "distinct (map fst irregularVerbs)"
  by (simp add: irregularVerbs_def)

lemma irregularVerbs_lower_case: "\<forall>w \<in> set (map fst irregularVerbs). toLowerCase w = w"
  by (simp add: irregularVerbs_def toLowerCase_def toLowerCase_char_def)

lemma irregularVerbs_forms_nonempty: "\<forall>(w, p, pp) \<in> set irregularVerbs. p \<noteq> [] \<and> pp \<noteq> []"
  by (simp add: irregularVerbs_def)

section \<open>Properties of the verb forms\<close>

lemma getVerbForms_Undefined:
  assumes "get_property irregularVerbs (toLowerCase base) = Undefined"
  shows "getVerbForms base =
     (let b = toLowerCase base;
          past = (if endsWith b ''e'' then b @ ''d''
                  else if match_nonvowel_y b then slice_init b @ ''ied''
                  else if match_vowel_nonvowel b then b @ slice_last b @ ''ed''
                  else b @ ''ed'')
      in \<lparr>v1 = b, v2 = Some past, v3 = Some past, vtype = Common\<rparr>)"
  using assms by (simp add: getVerbForms_def Let_def)

lemma get_property_Undefined_iff:
  "get_property table key = Undefined \<longleftrightarrow>
     key \<notin> set (map fst table) \<and> key \<notin> set object_prototype_properties"
proof (cases "own_property table key")
  case None
  then show ?thesis
    using own_property_None_iff [of table key] by (simp add: get_property_def)
next
  case (Some v)
  then show ?thesis
    using own_property_None_iff [of table key] by (simp add: get_property_def)
qed

text \<open>
  C3. For every entry \<open>(w, p, pp)\<close> of the table of irregular verbs, the verb forms of
  \<open>w\<close> are \<open>v1 = w\<close>, \<open>v2 = p\<close>, \<open>v3 = pp\<close> and the type irregular.
\<close>

theorem getVerbForms_irregular:
  "\<forall>(w, p, pp) \<in> set irregularVerbs.
     getVerbForms w = \<lparr>v1 = w, v2 = Some p, v3 = Some pp, vtype = Irregular\<rparr>"
proof -
  have "getVerbForms w = \<lparr>v1 = w, v2 = Some p, v3 = Some pp, vtype = Irregular\<rparr>"
    if entry: "(w, p, pp) \<in> set irregularVerbs" for w p pp
  proof -
    from entry have "w \<in> set (map fst irregularVerbs)" by force
    with irregularVerbs_lower_case have lower: "toLowerCase w = w" by blast
    from irregularVerbs_distinct entry have "own_property irregularVerbs w = Some (p, pp)"
      by (rule own_property_distinct)
    with lower show ?thesis
      by (simp add: getVerbForms_def get_property_def)
  qed
  then show ?thesis by blast
qed

theorem getVerbForms_irregular_witness:
  "getVerbForms ''go'' = \<lparr>v1 = ''go'', v2 = Some ''went'', v3 = Some ''gone'', vtype = Irregular\<rparr>
   \<and> getVerbForms ''hang'' = \<lparr>v1 = ''hang'', v2 = Some ''hung'', v3 = Some ''hung'', vtype = Irregular\<rparr>"
proof -
  have "(''go'', ''went'', ''gone'') \<in> set irregularVerbs"
    and "(''hang'', ''hung'', ''hung'') \<in> set irregularVerbs"
    by (simp_all add: irregularVerbs_def)
  with getVerbForms_irregular show ?thesis by blast
qed

text \<open>
  C4, as the code has it. For every base whose lower-cased form \<open>b\<close> is looked up in the
  table of irregular verbs with the result \<^verbatim>\<open>undefined\<close>, the past form is derived from
  \<open>b\<close> by these rules, which exclude one another:
  \<^enum> \<open>b\<close> ends in \<open>e\<close>: \<open>b\<close> followed by \<open>d\<close>;
  \<^enum> \<open>b\<close> ends in a character that is not a vowel followed by \<open>y\<close>: \<open>b\<close> without the
    \<open>y\<close>, followed by \<open>ied\<close>;
  \<^enum> the last two characters of \<open>b\<close> are a vowel and a character that is not a vowel,
    whatever stands before them: \<open>b\<close>, its last character once more, and \<open>ed\<close>;
  \<^enum> otherwise: \<open>b\<close> followed by \<open>ed\<close>.
  The vowels are the five letters \<open>a e i o u\<close>; every other character, \<open>y\<close> and
  digits included, is not a vowel.
\<close>

theorem getVerbForms_past_rules:
  assumes "get_property irregularVerbs (toLowerCase base) = Undefined"
  shows "(\<forall>xs. toLowerCase base = xs @ ''e'' \<longrightarrow>
            v2 (getVerbForms base) = Some (xs @ ''ed''))
     \<and> (\<forall>xs c. toLowerCase base = xs @ [c, CHR ''y''] \<and> \<not> isVowel c \<longrightarrow>
            v2 (getVerbForms base) = Some (xs @ [c] @ ''ied''))
     \<and> (\<forall>xs v c. toLowerCase base = xs @ [v, c] \<and> isVowel v \<and> \<not> isVowel c \<longrightarrow>
            v2 (getVerbForms base) = Some (xs @ [v, c, c] @ ''ed''))
     \<and> ((\<nexists>xs. toLowerCase base = xs @ ''e'')
        \<and> (\<nexists>xs c. toLowerCase base = xs @ [c, CHR ''y''] \<and> \<not> isVowel c)
        \<and> (\<nexists>xs v c. toLowerCase base = xs @ [v, c] \<and> isVowel v \<and> \<not> isVowel c) \<longrightarrow>
            v2 (getVerbForms base) = Some (toLowerCase base @ ''ed''))"
proof -
  let ?b = "toLowerCase base"
  note forms = getVerbForms_Undefined [OF assms]
  have r1: "v2 (getVerbForms base) = Some (xs @ ''ed'')" if "?b = xs @ ''e''" for xs
    using that by (simp add: forms Let_def endsWith_snoc)
  have r2: "v2 (getVerbForms base) = Some (xs @ [c] @ ''ied'')"
    if b: "?b = xs @ [c, CHR ''y'']" and c: "\<not> isVowel c" for xs c
  proof -
    have "\<not> endsWith ?b ''e''" using b by (simp add: endsWith_snoc)
    moreover have "match_nonvowel_y ?b" using b c by (auto simp: match_nonvowel_y_iff)
    moreover have "slice_init ?b = xs @ [c]"
      using slice_init_snoc [of "xs @ [c]" "CHR ''y''"] b by simp
    ultimately show ?thesis by (simp add: forms Let_def)
  qed
  have r3: "v2 (getVerbForms base) = Some (xs @ [v, c, c] @ ''ed'')"
    if b: "?b = xs @ [v, c]" and v: "isVowel v" and c: "\<not> isVowel c" for xs v c
  proof -
    have "c \<noteq> CHR ''e''" using c by (auto simp: isVowel_def)
    then have "\<not> endsWith ?b ''e''" using b by (simp add: endsWith_snoc)
    moreover have "\<not> match_nonvowel_y ?b" using b v by (auto simp: match_nonvowel_y_iff)
    moreover have "match_vowel_nonvowel ?b" using b v c by (auto simp: match_vowel_nonvowel_iff)
    moreover have "slice_last ?b = [c]"
      using slice_last_snoc [of "xs @ [v]" c] b by simp
    ultimately show ?thesis using b by (simp add: forms Let_def)
  qed
  have r4: "v2 (getVerbForms base) = Some (?b @ ''ed'')"
    if "\<nexists>xs. ?b = xs @ ''e''"
      and "\<nexists>xs c. ?b = xs @ [c, CHR ''y''] \<and> \<not> isVowel c"
      and "\<nexists>xs v c. ?b = xs @ [v, c] \<and> isVowel v \<and> \<not> isVowel c"
  proof -
    have "\<not> endsWith ?b ''e''" using that(1) by (simp add: endsWith_snoc)
    moreover have "\<not> match_nonvowel_y ?b" using that(2) by (simp add: match_nonvowel_y_iff)
    moreover have "\<not> match_vowel_nonvowel ?b" using that(3) by (simp add: match_vowel_nonvowel_iff)
    ultimately show ?thesis by (simp add: forms Let_def)
  qed
  from r1 r2 r3 r4 show ?thesis by blast
qed

theorem getVerbForms_past_rules_witness:
  "v2 (getVerbForms ''bake'') = Some ''baked''
   \<and> v2 (getVerbForms ''try'') = Some ''tried''
   \<and> v2 (getVerbForms ''chat'') = Some ''chatted''
   \<and> v2 (getVerbForms ''walk'') = Some ''walked''"
proof -
  have lower: "toLowerCase ''bake'' = ''bake''" "toLowerCase ''try'' = ''try''"
    "toLowerCase ''chat'' = ''chat''" "toLowerCase ''walk'' = ''walk''"
    by (simp_all add: toLowerCase_def toLowerCase_char_def)
  have undef: "get_property irregularVerbs (toLowerCase ''bake'') = Undefined"
    "get_property irregularVerbs (toLowerCase ''try'') = Undefined"
    "get_property irregularVerbs (toLowerCase ''chat'') = Undefined"
    "get_property irregularVerbs (toLowerCase ''walk'') = Undefined"
    by (simp_all add: lower get_property_Undefined_iff irregularVerbs_def
        object_prototype_properties_def)
  have bake: "v2 (getVerbForms ''bake'') = Some ''baked''"
    using getVerbForms_past_rules [OF undef(1)] lower(1)
    by (auto dest: spec [of _ "''bak''"])
  have tried: "v2 (getVerbForms ''try'') = Some ''tried''"
    using getVerbForms_past_rules [OF undef(2)] lower(2)
    by (auto simp: isVowel_def dest: spec [of _ "''t''"])
  have chat: "v2 (getVerbForms ''chat'') = Some ''chatted''"
    using getVerbForms_past_rules [OF undef(3)] lower(3)
    by (auto simp: isVowel_def dest: spec [of _ "''ch''"])
  have "\<not> endsWith ''walk'' ''e''" "\<not> match_nonvowel_y ''walk''" "\<not> match_vowel_nonvowel ''walk''"
    by (simp_all add: endsWith_def match_nonvowel_y_def match_vowel_nonvowel_def isVowel_def)
  then have "\<nexists>xs. ''walk'' = xs @ ''e''"
    and "\<nexists>xs c. ''walk'' = xs @ [c, CHR ''y''] \<and> \<not> isVowel c"
    and "\<nexists>xs v c. ''walk'' = xs @ [v, c] \<and> isVowel v \<and> \<not> isVowel c"
    unfolding endsWith_snoc match_nonvowel_y_iff match_vowel_nonvowel_iff by blast+
  then have walk: "v2 (getVerbForms ''walk'') = Some ''walked''"
    using getVerbForms_past_rules [OF undef(4)] unfolding lower(4) by simp
  from bake tried chat walk show ?thesis by blast
qed

text \<open>
  C4 as stated fails: \<open>need\<close> is not in the table and ends in two vowels and a
  consonant, so by the stated rules (no final \<open>e\<close>, no final \<open>y\<close>, no final
  consonant-vowel-consonant) its past form is \<open>needed\<close>; \<^verbatim>\<open>getVerbForms\<close> tests the last
  two characters only and returns \<open>needded\<close>.
\<close>

theorem getVerbForms_double_vowel_counterexample:
  "get_property irregularVerbs (toLowerCase ''need'') = Undefined
   \<and> past_by_stated_rules (toLowerCase ''need'') = ''needed''
   \<and> v2 (getVerbForms ''need'') = Some ''needded''
   \<and> v2 (getVerbForms ''need'') \<noteq> Some (past_by_stated_rules (toLowerCase ''need''))"
proof -
  have lower: "toLowerCase ''need'' = ''need''"
    by (simp add: toLowerCase_def toLowerCase_char_def)
  have undef: "get_property irregularVerbs (toLowerCase ''need'') = Undefined"
    by (simp add: lower get_property_Undefined_iff irregularVerbs_def
        object_prototype_properties_def)
  have stated: "past_by_stated_rules ''need'' = ''needed''"
    by (simp add: past_by_stated_rules_def endsWith_def match_nonvowel_y_def ends_in_CVC_def
        isVowel_def)
  have code: "v2 (getVerbForms ''need'') = Some ''needded''"
    by (simp add: getVerbForms_Undefined [OF undef] lower Let_def endsWith_def
        match_nonvowel_y_def match_vowel_nonvowel_def isVowel_def slice_last_def)
  from undef stated code show ?thesis by (simp add: lower)
qed

text \<open>
  The verb forms of a base that the lookup does not find are those of a regular verb:
  type \<^verbatim>\<open>'common'\<close>, \<open>v3\<close> equal to \<open>v2\<close>, and both a string that is not empty. The forms
  of an entry of the table are not empty either.
\<close>

lemma getVerbForms_regular:
  assumes "get_property irregularVerbs (toLowerCase base) = Undefined"
  shows "vtype (getVerbForms base) = Common"
    and "v3 (getVerbForms base) = v2 (getVerbForms base)"
    and "\<exists>past. v2 (getVerbForms base) = Some past \<and> past \<noteq> []"
  by (simp_all add: getVerbForms_Undefined [OF assms] Let_def)

lemma getVerbForms_own:
  assumes "get_property irregularVerbs (toLowerCase base) = Own (p, pp)"
  shows "getVerbForms base = \<lparr>v1 = toLowerCase base, v2 = Some p, v3 = Some pp, vtype = Irregular\<rparr>"
    and "p \<noteq> [] \<and> pp \<noteq> []"
proof -
  show "getVerbForms base = \<lparr>v1 = toLowerCase base, v2 = Some p, v3 = Some pp, vtype = Irregular\<rparr>"
    using assms by (simp add: getVerbForms_def)
  from assms have "own_property irregularVerbs (toLowerCase base) = Some (p, pp)"
    by (auto simp: get_property_def split: option.splits if_splits)
  then have "(toLowerCase base, p, pp) \<in> set irregularVerbs"
    unfolding own_property_def by (auto dest: map_of_SomeD)
  with irregularVerbs_forms_nonempty show "p \<noteq> [] \<and> pp \<noteq> []" by blast
qed

text \<open>
  C5 says that every base whose lower-cased form is not a key of the table of irregular
  verbs gets the type regular and equal, non-empty past and participle. The base
  \<open>constructor\<close> is not a key of the table, but \<^verbatim>\<open>irregularVerbs['constructor']\<close> is the
  inherited property \<^verbatim>\<open>Object.prototype.constructor\<close>, a function and so not falsy:
  \<^verbatim>\<open>getVerbForms\<close> takes the irregular branch and returns the type \<^verbatim>\<open>'irregular'\<close> with
  \<open>v2\<close> and \<open>v3\<close> \<^verbatim>\<open>undefined\<close>.
\<close>

theorem getVerbForms_constructor:
  "''constructor'' \<notin> set (map fst irregularVerbs)
   \<and> getVerbForms ''constructor'' =
       \<lparr>v1 = ''constructor'', v2 = None, v3 = None, vtype = Irregular\<rparr>"
proof -
  have lower: "toLowerCase ''constructor'' = ''constructor''"
    by (simp add: toLowerCase_def toLowerCase_char_def)
  have absent: "''constructor'' \<notin> set (map fst irregularVerbs)"
    by (simp add: irregularVerbs_def)
  then have "own_property irregularVerbs ''constructor'' = None"
    using own_property_None_iff [of irregularVerbs "''constructor''"] by blast
  then have "get_property irregularVerbs ''constructor'' = Inherited"
    by (simp add: get_property_def object_prototype_properties_def)
  then have "getVerbForms ''constructor'' =
      \<lparr>v1 = ''constructor'', v2 = None, v3 = None, vtype = Irregular\<rparr>"
    by (simp add: getVerbForms_def lower)
  with absent show ?thesis by blast
qed

section \<open>Properties of the levels\<close>

text \<open>
  A word that matches one of the three word lists contains a key of \<^verbatim>\<open>wordFrequency\<close>;
  so a word that contains no key is not in the table and matches no list.
\<close>

lemma matches_list_includes:
  assumes "list_ex (\<lambda>v. w = v \<or> startsWith w v \<or> endsWith w v \<or> includesStr w v)
             (frequency_where P)"
  shows "list_ex (\<lambda>k. includesStr w k) (map fst wordFrequency)"
proof -
  from assms obtain v where v: "v \<in> set (frequency_where P)"
    and m: "w = v \<or> startsWith w v \<or> endsWith w v \<or> includesStr w v"
    by (auto simp: list_ex_iff)
  from m have "sublist v w"
    by (auto simp: startsWith_prefix endsWith_suffix includesStr_sublist)
  then have "includesStr w v" by (simp add: includesStr_sublist)
  moreover from v frequency_where_subset have "v \<in> set (map fst wordFrequency)" by blast
  ultimately show ?thesis unfolding list_ex_iff by blast
qed

lemma no_key_included:
  assumes "\<not> list_ex (\<lambda>k. includesStr w k) (map fst wordFrequency)"
  shows "own_property wordFrequency w = None"
    and "\<not> matches_beginner w"
    and "\<not> matches_intermediate w"
    and "\<not> matches_advanced w"
proof -
  have "includesStr w w" by (simp add: includesStr_sublist)
  with assms have "w \<notin> set (map fst wordFrequency)" unfolding list_ex_iff by blast
  then show "own_property wordFrequency w = None"
    using own_property_None_iff [of wordFrequency w] by blast
  show "\<not> matches_beginner w"
    using assms matches_list_includes [of w "\<lambda>f. f \<ge> 50"]
    unfolding matches_beginner_def levelMapping_beginner_def list_ex_iff by blast
  show "\<not> matches_intermediate w"
    using assms matches_list_includes [of w "\<lambda>f. f \<ge> 20 \<and> f < 50"]
    unfolding matches_intermediate_def levelMapping_intermediate_def list_ex_iff by blast
  show "\<not> matches_advanced w"
    using assms matches_list_includes [of w "\<lambda>f. f < 20"]
    unfolding matches_advanced_def levelMapping_advanced_def list_ex_iff by blast
qed

text \<open>
  C9. For every word whose lower-cased form is absent from the frequency table, matches
  none of the three word lists and none of the complex prefixes and suffixes, the level
  is beginner when the word has at most 4 characters, intermediate when it has at most
  8, and advanced otherwise; so it is beginner at length 3, intermediate at length 6 and
  advanced at length 15.
\<close>

theorem determineLevel_fallback:
  assumes "own_property wordFrequency (toLowerCase verb) = None"
    and "\<not> matches_beginner (toLowerCase verb)"
    and "\<not> matches_intermediate (toLowerCase verb)"
    and "\<not> matches_advanced (toLowerCase verb)"
    and "\<not> matches_complex (toLowerCase verb)"
  shows "determineLevel verb =
           (if length verb \<le> 4 then Beginner
            else if length verb \<le> 8 then Intermediate else Advanced)
     \<and> (length verb = 3 \<longrightarrow> determineLevel verb = Beginner)
     \<and> (length verb = 6 \<longrightarrow> determineLevel verb = Intermediate)
     \<and> (length verb = 15 \<longrightarrow> determineLevel verb = Advanced)"
proof -
  have main: "determineLevel verb =
           (if length verb \<le> 4 then Beginner
            else if length verb \<le> 8 then Intermediate else Advanced)"
  proof (cases "toLowerCase verb \<in> set object_prototype_properties")
    case True
    then have inh: "get_property wordFrequency (toLowerCase verb) = Inherited"
      using assms(1) by (simp add: get_property_def)
    from True have "toLowerCase verb = ''constructor'' \<or> toLowerCase verb = ''__proto__''"
      by (rule inherited_toLowerCase)
    then have "length (toLowerCase verb) = 11 \<or> length (toLowerCase verb) = 9" by auto
    then have "8 < length verb" by (auto simp: length_toLowerCase)
    with inh show ?thesis by (simp add: determineLevel_def)
  next
    case False
    then have "get_property wordFrequency (toLowerCase verb) = Undefined"
      using assms(1) by (simp add: get_property_def)
    with assms(2-5) show ?thesis by (simp add: determineLevel_def)
  qed
  then show ?thesis by simp
qed

theorem determineLevel_fallback_witness:
  "determineLevel ''nap'' = Beginner
   \<and> determineLevel ''borrow'' = Intermediate
   \<and> determineLevel ''congratulations'' = Advanced"
proof -
  have lower: "toLowerCase ''nap'' = ''nap''" "toLowerCase ''borrow'' = ''borrow''"
    "toLowerCase ''congratulations'' = ''congratulations''"
    by (simp_all add: toLowerCase_def toLowerCase_char_def)
  have nap: "\<not> list_ex (\<lambda>k. includesStr ''nap'' k) (map fst wordFrequency)"
    by (simp add: wordFrequency_def)
  have borrow: "\<not> list_ex (\<lambda>k. includesStr ''borrow'' k) (map fst wordFrequency)"
    by (simp add: wordFrequency_def)
  have congratulations:
    "\<not> list_ex (\<lambda>k. includesStr ''congratulations'' k) (map fst wordFrequency)"
    by (simp add: wordFrequency_def)
  have complex: "\<not> matches_complex ''nap''" "\<not> matches_complex ''borrow''"
    "\<not> matches_complex ''congratulations''"
    by (simp_all add: matches_complex_def complexPrefixes_def complexSuffixes_def endsWith_def)
  have "determineLevel ''nap'' = Beginner"
    using determineLevel_fallback [of "''nap''"] no_key_included [OF nap] complex(1)
    by (simp add: lower)
  moreover have "determineLevel ''borrow'' = Intermediate"
    using determineLevel_fallback [of "''borrow''"] no_key_included [OF borrow] complex(2)
    by (simp add: lower)
  moreover have "determineLevel ''congratulations'' = Advanced"
    using determineLevel_fallback [of "''congratulations''"]
      no_key_included [OF congratulations] complex(3)
    by (simp add: lower)
  ultimately show ?thesis by blast
qed

end
